theory Spec2Isabelle
  imports Complex_Main "HOL-Library.AList" "HOL-Library.Multiset"
begin

section \<open>Python values and exceptions\<close>

text \<open>
  The exceptions the modelled methods can meet. \<open>OperationalError\<close> stands for every
  failure of the persistent store (\<open>sqlite3.connect\<close>, \<open>execute\<close>, \<open>commit\<close>, or the
  file operations of the long-term memory); \<open>IntegrityError\<close> is the violation of a
  PRIMARY KEY; \<open>KeyError\<close> and \<open>TypeError\<close> are Python's own.
\<close>

datatype exn = OperationalError | IntegrityError | KeyError | TypeError

text \<open>\<open>try: body except Exception as e: handler e\<close>\<close>

definition try_except :: "exn + 'a \<Rightarrow> (exn \<Rightarrow> exn + 'a) \<Rightarrow> exn + 'a" where
  "try_except body handler = (case body of Inl e \<Rightarrow> handler e | Inr v \<Rightarrow> Inr v)"

text \<open>JSON-like values (\<open>Dict[str, Any]\<close> metadata, preferences, additional context).\<close>

datatype json =
    JNull
  | JBool bool
  | JInt int
  | JStr string
  | JList "json list"
  | JDict "(string \<times> json) list"

text \<open>Python truthiness of such a value, as tested by \<open>if x:\<close> and \<open>x or d\<close>.\<close>

fun truthy :: "json \<Rightarrow> bool" where
  "truthy JNull = False"
| "truthy (JBool b) = b"
| "truthy (JInt n) = (n \<noteq> 0)"
| "truthy (JStr s) = (s \<noteq> [])"
| "truthy (JList xs) = (xs \<noteq> [])"
| "truthy (JDict kvs) = (kvs \<noteq> [])"

text \<open>\<open>sep.join(parts)\<close>\<close>

fun join :: "string \<Rightarrow> string list \<Rightarrow> string" where
  "join sep [] = []"
| "join sep [x] = x"
| "join sep (x # y # ys) = x @ sep @ join sep (y # ys)"


section \<open>conversation\_manager.py: the SQLite store\<close>

text \<open>
  Timestamps are the readings of SQLite's \<open>CURRENT_TIMESTAMP\<close>, whole seconds, as
  natural numbers. The columns declared REAL hold rationals here. Each table is the list
  of its rows in rowid order, which is the order of insertion.
\<close>

record conversation_row =
  conv_id :: string
  user_id :: string
  title :: string
  created_at :: nat
  updated_at :: nat
  conv_metadata :: json

record message_row =
  msg_id :: string
  conversation_id :: string
  role :: string
  content :: string
  timestamp :: nat
  metadata :: json
  tokens_used :: "int option"
  processing_time :: "rat option"
  confidence :: "rat option"

record database =
  conversations :: "conversation_row list"
  messages :: "message_row list"

text \<open>
  The database file together with the condition of the storage under it: when \<open>fault\<close>
  is \<open>Some e\<close>, \<open>sqlite3.connect(self.db_path)\<close> raises \<open>e\<close> and the tables stay as
  they are.
\<close>

record store =
  tables :: database
  fault :: "exn option"

definition sqlite3_connect :: "store \<Rightarrow> exn + database" where
  "sqlite3_connect st = (case fault st of Some e \<Rightarrow> Inl e | None \<Rightarrow> Inr (tables st))"

text \<open>
  \<open>ORDER BY timestamp ASC\<close>: rows sorted by the column; rows with equal timestamps keep
  the order in which the scan delivers them (rowid order), as SQLite's sorter does.
\<close>

definition order_by_timestamp :: "message_row list \<Rightarrow> message_row list" where
  "order_by_timestamp rows = sort_key timestamp rows"

text \<open>\<open>LIMIT n\<close>: a negative \<open>n\<close> is no limit.\<close>

definition sql_limit :: "int \<Rightarrow> 'a list \<Rightarrow> 'a list" where
  "sql_limit n rows = (if n < 0 then rows else take (nat n) rows)"

text \<open>
  \<open>add_message\<close>: \<open>message_id\<close> is the value drawn by \<open>uuid.uuid4()\<close> and \<open>now\<close> the
  reading of \<open>CURRENT_TIMESTAMP\<close>. The INSERT checks the PRIMARY KEY of \<open>messages\<close> and
  nothing else: no statement looks \<open>conversation_id\<close> up, and the connection never
  issues \<open>PRAGMA foreign_keys = ON\<close>, so the FOREIGN KEY clause of the schema is not
  enforced. The UPDATE touches the rows of \<open>conversations\<close> with that id, if any.
\<close>

definition add_message ::
  "store \<Rightarrow> string \<Rightarrow> nat \<Rightarrow> string \<Rightarrow> string \<Rightarrow> string \<Rightarrow> json option \<Rightarrow>
   int option \<Rightarrow> rat option \<Rightarrow> rat option \<Rightarrow> exn + (string \<times> store)" where
  "add_message st message_id now conversation_id' role' content' metadata'
               tokens_used' processing_time' confidence' =
     (let message_metadata = (case metadata' of None \<Rightarrow> JDict []
                               | Some md \<Rightarrow> if truthy md then md else JDict [])
      in try_except
           (case sqlite3_connect st of
              Inl e \<Rightarrow> Inl e
            | Inr db \<Rightarrow>
                if message_id \<in> set (map msg_id (messages db)) then Inl IntegrityError
                else
                  (let row = \<lparr> msg_id = message_id, conversation_id = conversation_id',
                               role = role', content = content', timestamp = now,
                               metadata = message_metadata, tokens_used = tokens_used',
                               processing_time = processing_time',
                               confidence = confidence' \<rparr>;
                       db1 = db\<lparr> messages := messages db @ [row] \<rparr>;
                       db2 = db1\<lparr> conversations :=
                               map (\<lambda>c. if conv_id c = conversation_id'
                                         then c\<lparr> updated_at := now \<rparr> else c)
                                   (conversations db1) \<rparr>
                   in Inr (message_id, st\<lparr> tables := db2 \<rparr>)))
           (\<lambda>e. Inl e))"

text \<open>\<open>get_conversation_history\<close>: \<open>if limit:\<close> skips the LIMIT clause for None and 0.\<close>

definition get_conversation_history ::
  "store \<Rightarrow> string \<Rightarrow> int option \<Rightarrow> bool \<Rightarrow> exn + message_row list" where
  "get_conversation_history st conversation_id' limit include_metadata =
     try_except
       (case sqlite3_connect st of
          Inl e \<Rightarrow> Inl e
        | Inr db \<Rightarrow>
            (let selected = order_by_timestamp
                              (filter (\<lambda>m. conversation_id m = conversation_id') (messages db));
                 rows = (case limit of
                           None \<Rightarrow> selected
                         | Some n \<Rightarrow> if n = 0 then selected else sql_limit n selected)
             in Inr (map (\<lambda>row. if include_metadata then row
                                 else row\<lparr> metadata := JDict [] \<rparr>) rows)))
       (\<lambda>e. Inl e)"


text \<open>
  \<open>delete_conversation\<close>: the two DELETE statements, then \<open>return True\<close>; the handler
  returns False. Neither statement's row count is read.
\<close>

definition delete_conversation :: "store \<Rightarrow> string \<Rightarrow> bool \<times> store" where
  "delete_conversation st conversation_id' =
     (case try_except
             (case sqlite3_connect st of
                Inl e \<Rightarrow> Inl e
              | Inr db \<Rightarrow>
                  (let db1 = db\<lparr> messages :=
                               filter (\<lambda>m. conversation_id m \<noteq> conversation_id') (messages db) \<rparr>;
                       db2 = db1\<lparr> conversations :=
                               filter (\<lambda>c. conv_id c \<noteq> conversation_id') (conversations db1) \<rparr>
                   in Inr (True, st\<lparr> tables := db2 \<rparr>)))
             (\<lambda>e. Inr (False, st)) of
        Inr r \<Rightarrow> r
      | Inl e \<Rightarrow> (False, st))"

text \<open>
  SQLite's \<open>LIKE\<close>: \<open>%\<close> matches any run of characters, \<open>_\<close> one character, and ASCII
  letters match without regard to case.
\<close>

definition ascii_lower :: "char \<Rightarrow> char" where
  "ascii_lower c = (let n = (of_char c :: nat) in if 65 \<le> n \<and> n \<le> 90 then char_of (n + 32) else c)"

fun sql_like :: "string \<Rightarrow> string \<Rightarrow> bool" where
  "sql_like [] [] = True"
| "sql_like [] (c # cs) = False"
| "sql_like (p # ps) [] = (p = CHR ''%'' \<and> sql_like ps [])"
| "sql_like (p # ps) (c # cs) =
     (if p = CHR ''%'' then sql_like ps (c # cs) \<or> sql_like (p # ps) cs
      else if p = CHR ''_'' then sql_like ps cs
      else ascii_lower p = ascii_lower c \<and> sql_like ps cs)"

text \<open>
  \<open>ORDER BY m.timestamp DESC\<close>, with rows of equal timestamp in the order of the scan.
\<close>

definition order_by_timestamp_desc :: "message_row list \<Rightarrow> message_row list" where
  "order_by_timestamp_desc rows = sort_key (\<lambda>m. - int (timestamp m)) rows"

text \<open>
  \<open>search_messages\<close>: the JOIN pairs each message with the conversations of that id; the
  handler returns the empty list.
\<close>

definition search_messages :: "store \<Rightarrow> string \<Rightarrow> string \<Rightarrow> int \<Rightarrow> exn + message_row list" where
  "search_messages st user_id' query limit =
     try_except
       (case sqlite3_connect st of
          Inl e \<Rightarrow> Inl e
        | Inr db \<Rightarrow>
            (let joined = concat (map (\<lambda>m. map (\<lambda>c. (m, c))
                                             (filter (\<lambda>c. conversation_id m = conv_id c)
                                                     (conversations db)))
                                      (messages db));
                 matching = filter (\<lambda>(m, c). user_id c = user_id' \<and>
                                       sql_like (''%'' @ query @ ''%'') (content m)) joined;
                 rows = sql_limit limit (order_by_timestamp_desc (map fst matching))
             in Inr rows))
       (\<lambda>e. Inr [])"

text \<open>
  The aggregates of \<open>get_conversation_stats\<close>. \<open>SUM\<close> and \<open>AVG\<close> skip NULL and are NULL
  when nothing is left; \<open>AVG\<close> is REAL.
\<close>

datatype number = PyInt int | PyFloat rat

definition non_null :: "'a option list \<Rightarrow> 'a list" where
  "non_null xs = concat (map (\<lambda>x. case x of None \<Rightarrow> [] | Some v \<Rightarrow> [v]) xs)"

definition sql_sum_int :: "int option list \<Rightarrow> number option" where
  "sql_sum_int xs = (if non_null xs = [] then None else Some (PyInt (sum_list (non_null xs))))"

definition sql_sum_real :: "rat option list \<Rightarrow> number option" where
  "sql_sum_real xs = (if non_null xs = [] then None else Some (PyFloat (sum_list (non_null xs))))"

definition sql_avg_int :: "int option list \<Rightarrow> number option" where
  "sql_avg_int xs =
     (if non_null xs = [] then None
      else Some (PyFloat (of_int (sum_list (non_null xs)) / of_nat (length (non_null xs)))))"

definition sql_avg_real :: "rat option list \<Rightarrow> number option" where
  "sql_avg_real xs =
     (if non_null xs = [] then None
      else Some (PyFloat (sum_list (non_null xs) / of_nat (length (non_null xs)))))"

text \<open>\<open>row[i] or 0\<close>\<close>

fun or_0 :: "number option \<Rightarrow> number" where
  "or_0 None = PyInt 0"
| "or_0 (Some (PyInt n)) = PyInt n"
| "or_0 (Some (PyFloat x)) = (if x = 0 then PyInt 0 else PyFloat x)"

text \<open>\<open>get_conversation_stats\<close>: the handler returns the empty dict.\<close>

definition get_conversation_stats :: "store \<Rightarrow> string \<Rightarrow> exn + (string \<times> number) list" where
  "get_conversation_stats st conversation_id' =
     try_except
       (case sqlite3_connect st of
          Inl e \<Rightarrow> Inl e
        | Inr db \<Rightarrow>
            (let rows = filter (\<lambda>m. conversation_id m = conversation_id') (messages db)
             in Inr [(''message_count'', or_0 (Some (PyInt (int (length rows))))),
                     (''total_tokens'', or_0 (sql_sum_int (map tokens_used rows))),
                     (''avg_tokens'', or_0 (sql_avg_int (map tokens_used rows))),
                     (''total_processing_time'', or_0 (sql_sum_real (map processing_time rows))),
                     (''avg_confidence'', or_0 (sql_avg_real (map confidence rows)))]))
       (\<lambda>e. Inr [])"

text \<open>
  \<open>cleanup_old_conversations\<close>: \<open>now\<close> is SQLite's \<open>'now'\<close> in seconds. For a negative
  \<open>days\<close> the modifier \<open>'--n days'\<close> is malformed, \<open>datetime\<close> is NULL and no row is
  selected. The handler returns 0.
\<close>

definition old_conversation_ids :: "database \<Rightarrow> nat \<Rightarrow> int \<Rightarrow> string list" where
  "old_conversation_ids db now days =
     (if days < 0 then []
      else map conv_id (filter (\<lambda>c. int (updated_at c) < int now - days * 86400)
                               (conversations db)))"

fun delete_each :: "string list \<Rightarrow> database \<Rightarrow> database" where
  "delete_each [] db = db"
| "delete_each (conv # rest) db =
     delete_each rest
       (db\<lparr> messages := filter (\<lambda>m. conversation_id m \<noteq> conv) (messages db),
            conversations := filter (\<lambda>c. conv_id c \<noteq> conv) (conversations db) \<rparr>)"

definition cleanup_old_conversations :: "store \<Rightarrow> nat \<Rightarrow> int \<Rightarrow> int \<times> store" where
  "cleanup_old_conversations st now days =
     (case try_except
             (case sqlite3_connect st of
                Inl e \<Rightarrow> Inl e
              | Inr db \<Rightarrow>
                  (let ids = old_conversation_ids db now days
                   in Inr (int (length ids), st\<lparr> tables := delete_each ids db \<rparr>)))
             (\<lambda>e. Inr (0, st)) of
        Inr r \<Rightarrow> r
      | Inl e \<Rightarrow> (0, st))"

text \<open>
  \<open>before x y xs\<close>: some occurrence of \<open>x\<close> in \<open>xs\<close> has an occurrence of \<open>y\<close> after it.
\<close>

fun before :: "'a \<Rightarrow> 'a \<Rightarrow> 'a list \<Rightarrow> bool" where
  "before x y [] = False"
| "before x y (z # zs) = ((z = x \<and> y \<in> set zs) \<or> before x y zs)"


section \<open>context\_manager.py: context assembly\<close>

text \<open>The entry written to \<open>self.context_cache\<close>.\<close>

record cache_entry =
  cached_context :: string
  cached_at :: nat
  token_count :: int

text \<open>
  An item of working memory. Python floats are kept abstract: \<open>'f\<close> is their type, and
  the operations on them that the code uses are parameters of the functions below.
\<close>

record ('v, 'f) memory_item =
  item_value :: 'v
  item_timestamp :: nat
  importance :: 'f
  access_count :: int

text \<open>
  The fields of a \<open>ContextManager\<close>. Python dicts are association lists with distinct
  keys, in insertion order.
\<close>

record ('v, 'f) context_manager =
  max_context_length :: int
  working_memory :: "(string \<times> (string \<times> ('v, 'f) memory_item) list) list"
  context_cache :: "(string \<times> cache_entry) list"

text \<open>\<open>f"{message.role}: {message.content}"\<close>\<close>

definition message_text :: "message_row \<Rightarrow> string" where
  "message_text message = role message @ '': '' @ content message"

text \<open>
  The loop of \<open>get_context_for_conversation\<close> over \<open>reversed(messages)\<close>; the state is
  \<open>(context_parts, total_length)\<close>, and \<open>break\<close> ends the recursion.
\<close>

fun context_loop :: "int \<Rightarrow> message_row list \<Rightarrow> string list \<times> int \<Rightarrow> string list \<times> int" where
  "context_loop max_tokens [] (context_parts, total_length) = (context_parts, total_length)"
| "context_loop max_tokens (message # rest) (context_parts, total_length) =
     (let message_length = int (length (message_text message)) in
      if total_length + message_length \<le> max_tokens
      then context_loop max_tokens rest
             (message_text message # context_parts, total_length + message_length)
      else (context_parts, total_length))"

text \<open>\<open>max_tokens or self.max_context_length\<close>: None and 0 give the default.\<close>

definition or_default :: "int option \<Rightarrow> int \<Rightarrow> int" where
  "or_default max_tokens d = (case max_tokens of None \<Rightarrow> d | Some n \<Rightarrow> if n = 0 then d else n)"

text \<open>
  \<open>get_context_for_conversation\<close>: \<open>now\<close> is the reading of \<open>datetime.now()\<close>. The
  history is fetched with \<open>limit=50\<close>, which the query applies to the rows in ascending
  order of timestamp. An exception anywhere gives the empty string.
\<close>

definition get_context_for_conversation ::
  "('v, 'f) context_manager \<Rightarrow> store \<Rightarrow> nat \<Rightarrow> string \<Rightarrow> int option \<Rightarrow>
   string \<times> ('v, 'f) context_manager" where
  "get_context_for_conversation self st now conversation_id' max_tokens =
     (let max_tokens' = or_default max_tokens (max_context_length self)
      in case get_conversation_history st conversation_id' (Some 50) True of
           Inl e \<Rightarrow> ([], self)
         | Inr messages' \<Rightarrow>
             (let (context_parts, total_length) =
                    context_loop max_tokens' (rev messages') ([], 0);
                  context = join [CHR 10] context_parts
              in (context,
                  self\<lparr> context_cache :=
                          AList.update conversation_id'
                            \<lparr> cached_context = context, cached_at = now,
                              token_count = total_length \<rparr>
                            (context_cache self) \<rparr>)))"


section \<open>context\_manager.py: working memory and consolidation\<close>

text \<open>
  The float operations used by \<open>consolidate_memory\<close>: the product of a float and an int,
  the comparison \<open>>\<close>, and the literal \<open>2.0\<close>.
\<close>

record 'f float_ops =
  float_times_int :: "'f \<Rightarrow> int \<Rightarrow> 'f"
  float_greater :: "'f \<Rightarrow> 'f \<Rightarrow> bool"
  float_2_0 :: 'f

text \<open>
  \<open>update_working_memory\<close>: \<open>now\<close> is the reading of \<open>datetime.now()\<close>. Assigning to a
  key of a dict replaces the value in place or appends the key.
\<close>

definition update_working_memory ::
  "('v, 'f) context_manager \<Rightarrow> nat \<Rightarrow> string \<Rightarrow> string \<Rightarrow> 'v \<Rightarrow> 'f \<Rightarrow> ('v, 'f) context_manager" where
  "update_working_memory self now conversation_id' key v importance' =
     (let self1 = (if map_of (working_memory self) conversation_id' = None
                   then self\<lparr> working_memory := AList.update conversation_id' []
                                                     (working_memory self) \<rparr>
                   else self);
          working_mem = (case map_of (working_memory self1) conversation_id' of
                           None \<Rightarrow> [] | Some m \<Rightarrow> m)
      in self1\<lparr> working_memory :=
                  AList.update conversation_id'
                    (AList.update key
                       \<lparr> item_value = v, item_timestamp = now,
                         importance = importance', access_count = 1 \<rparr>
                       working_mem)
                    (working_memory self1) \<rparr>)"

text \<open>What \<open>get_working_memory\<close> returns: None, the value of one item, or the whole dict.\<close>

datatype ('v, 'f) memory_result =
    PyNone
  | ItemValue 'v
  | WholeMemory "(string \<times> ('v, 'f) memory_item) list"

text \<open>
  \<open>get_working_memory\<close>: \<open>if key:\<close> holds for a key that is given and not the empty
  string; \<open>if memory_item:\<close> holds for every item found, a dict of four entries.
\<close>

definition get_working_memory ::
  "('v, 'f) context_manager \<Rightarrow> string \<Rightarrow> string option \<Rightarrow>
   ('v, 'f) memory_result \<times> ('v, 'f) context_manager" where
  "get_working_memory self conversation_id' key =
     (case map_of (working_memory self) conversation_id' of
        None \<Rightarrow> (PyNone, self)
      | Some working_mem \<Rightarrow>
          (case key of
             Some k \<Rightarrow>
               if k \<noteq> [] then
                 (case map_of working_mem k of
                    Some memory_item \<Rightarrow>
                      (ItemValue (item_value memory_item),
                       self\<lparr> working_memory :=
                               AList.update conversation_id'
                                 (AList.update k
                                    (memory_item\<lparr> access_count := access_count memory_item + 1 \<rparr>)
                                    working_mem)
                                 (working_memory self) \<rparr>)
                  | None \<Rightarrow> (PyNone, self))
               else (WholeMemory working_mem, self)
           | None \<Rightarrow> (WholeMemory working_mem, self)))"

text \<open>
  The dicts of a manager are well formed: no conversation and, within a conversation, no
  key occurs twice.
\<close>

definition distinct_keys :: "('v, 'f) context_manager \<Rightarrow> bool" where
  "distinct_keys self =
     (distinct (map fst (working_memory self)) \<and>
      list_all (\<lambda>(conv, working_mem). distinct (map fst working_mem)) (working_memory self))"

text \<open>
  Long-term storage: the files \<open>data/memory/<conversation_id>_memory.json\<close>, each a dict
  from keys to consolidated entries. When \<open>disk_fault\<close> is \<open>Some e\<close> the file
  operations raise \<open>e\<close>.
\<close>

record ('v, 'f) long_term_entry =
  entry_value :: 'v
  strength :: 'f
  consolidated_at :: nat

record ('v, 'f) disk =
  memory_files :: "(string \<times> (string \<times> ('v, 'f) long_term_entry) list) list"
  disk_fault :: "exn option"

text \<open>\<open>d.update(e)\<close>: the entries of \<open>e\<close> are assigned to \<open>d\<close> one after the other.\<close>

definition dict_update :: "('k \<times> 'a) list \<Rightarrow> ('k \<times> 'a) list \<Rightarrow> ('k \<times> 'a) list" where
  "dict_update d e = fold (\<lambda>(k, v). AList.update k v) e d"

text \<open>\<open>_store_long_term_memory\<close>: the handler logs the exception and returns.\<close>

definition store_long_term_memory ::
  "('v, 'f) disk \<Rightarrow> string \<Rightarrow> (string \<times> ('v, 'f) long_term_entry) list \<Rightarrow> ('v, 'f) disk" where
  "store_long_term_memory dsk conversation_id' memories =
     (case try_except
             (case disk_fault dsk of
                Some e \<Rightarrow> Inl e
              | None \<Rightarrow>
                  (let existing_memories =
                         (case map_of (memory_files dsk) conversation_id' of
                            None \<Rightarrow> [] | Some m \<Rightarrow> m);
                       existing_memories' = dict_update existing_memories memories
                   in Inr (dsk\<lparr> memory_files :=
                                  AList.update conversation_id' existing_memories'
                                    (memory_files dsk) \<rparr>)))
             (\<lambda>e. Inr dsk) of
        Inr dsk' \<Rightarrow> dsk'
      | Inl e \<Rightarrow> dsk)"

text \<open>
  The loop of \<open>consolidate_memory\<close> over \<open>working_mem.items()\<close>; the state is
  \<open>important_memories\<close>. \<open>now_at key\<close> is the reading of \<open>datetime.now()\<close> when \<open>key\<close>
  is visited.
\<close>

definition consolidate_step ::
  "'f float_ops \<Rightarrow> (string \<Rightarrow> nat) \<Rightarrow> string \<times> ('v, 'f) memory_item \<Rightarrow>
   (string \<times> ('v, 'f) long_term_entry) list \<Rightarrow> (string \<times> ('v, 'f) long_term_entry) list" where
  "consolidate_step ops now_at = (\<lambda>(key, memory_item) important_memories.
     (let strength' = float_times_int ops (importance memory_item) (access_count memory_item)
      in if float_greater ops strength' (float_2_0 ops)
         then AList.update key
                \<lparr> entry_value = item_value memory_item, strength = strength',
                  consolidated_at = now_at key \<rparr>
                important_memories
         else important_memories))"

definition consolidate_memory ::
  "'f float_ops \<Rightarrow> (string \<Rightarrow> nat) \<Rightarrow> ('v, 'f) context_manager \<Rightarrow> ('v, 'f) disk \<Rightarrow> string \<Rightarrow>
   ('v, 'f) context_manager \<times> ('v, 'f) disk" where
  "consolidate_memory ops now_at self dsk conversation_id' =
     (case map_of (working_memory self) conversation_id' of
        None \<Rightarrow> (self, dsk)
      | Some working_mem \<Rightarrow>
          (let important_memories = fold (consolidate_step ops now_at) working_mem []
           in if important_memories \<noteq> []
              then (self, store_long_term_memory dsk conversation_id' important_memories)
              else (self, dsk)))"

text \<open>\<open>retrieve_long_term_memory\<close>: the handler returns the empty dict.\<close>

definition retrieve_long_term_memory ::
  "('v, 'f) disk \<Rightarrow> string \<Rightarrow> (string \<times> ('v, 'f) long_term_entry) list" where
  "retrieve_long_term_memory dsk conversation_id' =
     (case disk_fault dsk of
        Some e \<Rightarrow> []
      | None \<Rightarrow> (case map_of (memory_files dsk) conversation_id' of None \<Rightarrow> [] | Some m \<Rightarrow> m))"


section \<open>ai\_engine.py: prompt construction\<close>

text \<open>
  What a Python method could consult besides its arguments: the wall clock and the state
  of the random generator. \<open>build_prompt\<close> is given them so that its independence of
  them can be stated.
\<close>

record ambient =
  wall_clock :: nat
  random_state :: nat

text \<open>\<open>history[-10:]\<close>\<close>

definition last_10 :: "'a list \<Rightarrow> 'a list" where
  "last_10 xs = drop (length xs - 10) xs"

text \<open>\<open>entry[key]\<close>, for an entry of the history\<close>

definition subscript :: "(string \<times> string) list \<Rightarrow> string \<Rightarrow> exn + string" where
  "subscript entry key = (case map_of entry key of None \<Rightarrow> Inl KeyError | Some v \<Rightarrow> Inr v)"

text \<open>
  The lines appended for the history: for each entry the user's message, then the
  assistant's; the first missing key raises.
\<close>

fun history_lines :: "(string \<times> string) list list \<Rightarrow> exn + string list" where
  "history_lines [] = Inr []"
| "history_lines (entry # rest) =
     (case subscript entry ''user_message'' of
        Inl e \<Rightarrow> Inl e
      | Inr user_message \<Rightarrow>
          (case subscript entry ''ai_response'' of
             Inl e \<Rightarrow> Inl e
           | Inr ai_response \<Rightarrow>
               (case history_lines rest of
                  Inl e \<Rightarrow> Inl e
                | Inr lines \<Rightarrow>
                    Inr ((''User: '' @ user_message) # (''Assistant: '' @ ai_response) # lines))))"

text \<open>
  \<open>', '.join(x)\<close> for a truthy value \<open>x\<close>: a list of strings, the characters of a
  string, or the keys of a dict; anything else is a TypeError.
\<close>

fun the_strings :: "json list \<Rightarrow> string list option" where
  "the_strings [] = Some []"
| "the_strings (JStr s # rest) = map_option ((#) s) (the_strings rest)"
| "the_strings (v # rest) = None"

fun join_value :: "string \<Rightarrow> json \<Rightarrow> exn + string" where
  "join_value sep (JList xs) =
     (case the_strings xs of None \<Rightarrow> Inl TypeError | Some strs \<Rightarrow> Inr (join sep strs))"
| "join_value sep (JStr s) = Inr (join sep (map (\<lambda>c. [c]) s))"
| "join_value sep (JDict kvs) = Inr (join sep (map fst kvs))"
| "join_value sep v = Inl TypeError"

text \<open>The closing instruction, a triple-quoted literal of the source.\<close>

definition response_instruction :: string where
  \<open>response_instruction =
     concat (map ((#) (CHR 10))
       [''        Please provide a helpful response. If this is a complex problem, include your reasoning steps.'',
        ''        Format your response as JSON with the following structure:'',
        ''        {'',
        ''            "response": "Your main response here",'',
        ''            "reasoning_steps": ["Step 1", "Step 2", ...],'',
        ''            "confidence": 0.95,'',
        ''            "suggestions": ["Optional suggestion 1", ...]'',
        ''        }'',
        ''        ''])\<close>

text \<open>
  \<open>_build_prompt\<close>: \<open>json_dumps\<close> is \<open>json.dumps(_, indent=2)\<close>; \<open>context\<close> is the
  user's context dict and \<open>context.get\<close> its lookup, None for a missing key.
\<close>

definition build_prompt ::
  "ambient \<Rightarrow> (json \<Rightarrow> string) \<Rightarrow> string \<Rightarrow> string \<Rightarrow> (string \<times> string) list list \<Rightarrow>
   (string \<times> json) list \<Rightarrow> json list option \<Rightarrow> json option \<Rightarrow> exn + string" where
  "build_prompt world json_dumps system_prompt message history context attachments
                additional_context =
     (let preferences = (case map_of context ''preferences'' of None \<Rightarrow> JNull | Some v \<Rightarrow> v);
          expertise_areas = (case map_of context ''expertise_areas'' of
                               None \<Rightarrow> JNull | Some v \<Rightarrow> v);
          parts1 = [system_prompt];
          parts2 = (if truthy preferences
                    then parts1 @ [''User Preferences: '' @ json_dumps preferences]
                    else parts1)
      in case (if truthy expertise_areas
               then (case join_value '', '' expertise_areas of
                       Inl e \<Rightarrow> Inl e
                     | Inr joined \<Rightarrow> Inr (parts2 @ [''User's Expertise Areas: '' @ joined]))
               else Inr parts2) of
           Inl e \<Rightarrow> Inl e
         | Inr parts3 \<Rightarrow>
             (case (if history \<noteq> []
                    then (case history_lines (last_10 history) of
                            Inl e \<Rightarrow> Inl e
                          | Inr lines \<Rightarrow> Inr (parts3 @ [''Conversation History:''] @ lines))
                    else Inr parts3) of
                Inl e \<Rightarrow> Inl e
              | Inr parts4 \<Rightarrow>
                  (let parts5 = (case additional_context of
                                   None \<Rightarrow> parts4
                                 | Some ac \<Rightarrow>
                                     if truthy ac
                                     then parts4 @ [''Additional Context: '' @ json_dumps ac]
                                     else parts4);
                       parts6 = parts5 @ [''Current Message: '' @ message];
                       parts7 = parts6 @ [response_instruction]
                   in Inr (join [CHR 10, CHR 10] parts7))))"


section \<open>Concrete states\<close>

text \<open>
  A store with one conversation of user alice, rows of that conversation, and a freshly
  constructed \<open>ContextManager\<close>; the theorems below are evaluated on them.
\<close>

definition example_conversation :: conversation_row where
  "example_conversation =
     \<lparr> conv_id = ''c1'', user_id = ''alice'', title = ''Trip'', created_at = 0,
       updated_at = 0, conv_metadata = JDict [] \<rparr>"

definition example_store :: store where
  "example_store =
     \<lparr> tables = \<lparr> conversations = [example_conversation], messages = [] \<rparr>, fault = None \<rparr>"

definition example_message :: "string \<Rightarrow> nat \<Rightarrow> string \<Rightarrow> string \<Rightarrow> message_row" where
  "example_message i t r c =
     \<lparr> msg_id = i, conversation_id = ''c1'', role = r, content = c, timestamp = t,
       metadata = JDict [], tokens_used = None, processing_time = None, confidence = None \<rparr>"

definition store_with :: "message_row list \<Rightarrow> store" where
  "store_with rows =
     \<lparr> tables = \<lparr> conversations = [example_conversation], messages = rows \<rparr>, fault = None \<rparr>"

definition empty_manager :: "(json, rat) context_manager" where
  "empty_manager = \<lparr> max_context_length = 8000, working_memory = [], context_cache = [] \<rparr>"


definition store_at :: "nat \<Rightarrow> message_row list \<Rightarrow> store" where
  "store_at t rows =
     \<lparr> tables = \<lparr> conversations = [example_conversation\<lparr> updated_at := t \<rparr>],
                  messages = rows \<rparr>,
       fault = None \<rparr>"

definition broken_store :: store where
  "broken_store = example_store\<lparr> fault := Some OperationalError \<rparr>"

text \<open>
  Float operations on rationals, exact for the values used below; items of working
  memory, a manager holding them for the conversation \<open>c1\<close>, and a long-term file with
  two older entries.
\<close>

definition exact_float_ops :: "rat float_ops" where
  "exact_float_ops =
     \<lparr> float_times_int = (\<lambda>x n. x * of_int n), float_greater = (\<lambda>x y. y < x), float_2_0 = 2 \<rparr>"

definition example_item :: "string \<Rightarrow> rat \<Rightarrow> int \<Rightarrow> (json, rat) memory_item" where
  "example_item v imp n =
     \<lparr> item_value = JStr v, item_timestamp = 3, importance = imp, access_count = n \<rparr>"

definition manager_with :: "(string \<times> (json, rat) memory_item) list \<Rightarrow> (json, rat) context_manager" where
  "manager_with items = empty_manager\<lparr> working_memory := [(''c1'', items)] \<rparr>"

definition example_disk :: "(json, rat) disk" where
  "example_disk =
     \<lparr> memory_files =
         [(''c1'', [(''goal'', \<lparr> entry_value = JStr ''Porto'', strength = 3, consolidated_at = 1 \<rparr>),
                   (''name'', \<lparr> entry_value = JStr ''Alice'', strength = 5, consolidated_at = 1 \<rparr>)])],
       disk_fault = None \<rparr>"

section \<open>Context assembly: the budget\<close>

lemmas eval_defs = get_context_for_conversation_def get_conversation_history_def sqlite3_connect_def
  try_except_def order_by_timestamp_def sql_limit_def message_text_def or_default_def
  example_conversation_def example_store_def example_message_def store_with_def empty_manager_def Let_def

lemma context_loop_bound:
  "context_loop B ms (parts, tot) = (parts', tot') \<Longrightarrow> tot \<le> B \<Longrightarrow> tot' \<le> B"
  by (induction ms arbitrary: parts tot) (auto simp: Let_def split: if_splits)



lemma length_join:
  "parts \<noteq> [] \<Longrightarrow>
   length (join sep parts) + length sep = sum_list (map length parts) + length sep * length parts"
  by (induction sep parts rule: join.induct) auto

lemma context_loop_over_budget:
  "B < int (length (message_text m)) \<Longrightarrow> context_loop B (m # ms) ([], 0) = ([], 0)"
  by (simp add: Let_def)

lemma context_of_history:
  "get_conversation_history st cid (Some 50) True = Inr msgs \<Longrightarrow>
   fst (get_context_for_conversation self st now cid max_tokens) =
   join [CHR 10] (fst (context_loop (or_default max_tokens (max_context_length self)) (rev msgs) ([], 0)))"
  by (simp add: get_context_for_conversation_def Let_def split: prod.splits)

text \<open>
  A conversation of at most 50 messages is fetched whole by the \<open>limit=50\<close> of
  \<open>get_context_for_conversation\<close>.
\<close>

lemma whole_history_fetched:
  assumes "get_conversation_history st cid None True = Inr msgs" and "length msgs \<le> 50"
  shows "get_conversation_history st cid (Some 50) True = Inr msgs"
  using assms
  by (auto simp: get_conversation_history_def sqlite3_connect_def try_except_def sql_limit_def
                 Let_def split: option.splits)

text \<open>
  The loop keeps the first \<open>j\<close> of the messages it walks, and stops either at the end
  or at a message that would take the total over the budget; in terms of the history,
  it keeps the messages from some position \<open>n\<close> on.
\<close>

lemma context_loop_take:
  "\<exists>j\<le>length ms.
     context_loop B ms (parts, tot) =
       (map message_text (rev (take j ms)) @ parts,
        tot + int (sum_list (map (length \<circ> message_text) (take j ms)))) \<and>
     (j = length ms \<or>
      B < tot + int (sum_list (map (length \<circ> message_text) (take j ms)))
            + int (length (message_text (ms ! j))))"
proof (induction ms arbitrary: parts tot)
  case Nil
  then show ?case by simp
next
  case (Cons m ms)
  show ?case
  proof (cases "tot + int (length (message_text m)) \<le> B")
    case True
    from Cons.IH[of "message_text m # parts" "tot + int (length (message_text m))"]
    obtain j where j: "j \<le> length ms"
      and loop: "context_loop B ms (message_text m # parts, tot + int (length (message_text m))) =
         (map message_text (rev (take j ms)) @ message_text m # parts,
          tot + int (length (message_text m)) + int (sum_list (map (length \<circ> message_text) (take j ms))))"
      and stop: "j = length ms \<or>
         B < tot + int (length (message_text m)) + int (sum_list (map (length \<circ> message_text) (take j ms)))
               + int (length (message_text (ms ! j)))"
      by blast
    have "Suc j \<le> length (m # ms)" using j by simp
    moreover have "context_loop B (m # ms) (parts, tot) =
       (map message_text (rev (take (Suc j) (m # ms))) @ parts,
        tot + int (sum_list (map (length \<circ> message_text) (take (Suc j) (m # ms)))))"
      using True loop by (simp add: Let_def)
    moreover have "Suc j = length (m # ms) \<or>
        B < tot + int (sum_list (map (length \<circ> message_text) (take (Suc j) (m # ms))))
              + int (length (message_text ((m # ms) ! Suc j)))"
      using stop by auto
    ultimately show ?thesis by blast
  next
    case False
    then have "context_loop B (m # ms) (parts, tot) = (parts, tot)" by (simp add: Let_def)
    with False show ?thesis by (intro exI[of _ 0]) simp
  qed
qed

lemma context_loop_recent:
  "\<exists>n\<le>length msgs.
     context_loop B (rev msgs) ([], 0) =
       (map message_text (drop n msgs),
        int (sum_list (map (length \<circ> message_text) (drop n msgs)))) \<and>
     (n = 0 \<or>
      B < int (sum_list (map (length \<circ> message_text) (drop n msgs)))
            + int (length (message_text (msgs ! (n - 1)))))"
proof -
  from context_loop_take[of "rev msgs" B "[]" 0]
  obtain j where j: "j \<le> length msgs"
    and loop: "context_loop B (rev msgs) ([], 0) =
       (map message_text (rev (take j (rev msgs))),
        int (sum_list (map (length \<circ> message_text) (take j (rev msgs)))))"
    and stop: "j = length msgs \<or>
       B < int (sum_list (map (length \<circ> message_text) (take j (rev msgs))))
             + int (length (message_text (rev msgs ! j)))"
    by auto
  let ?n = "length msgs - j"
  have tk: "take j (rev msgs) = rev (drop ?n msgs)" by (simp add: take_rev)
  have sm: "sum_list (map (length \<circ> message_text) (take j (rev msgs))) =
            sum_list (map (length \<circ> message_text) (drop ?n msgs))"
    unfolding tk by (simp add: rev_map[symmetric])
  have "context_loop B (rev msgs) ([], 0) =
       (map message_text (drop ?n msgs),
        int (sum_list (map (length \<circ> message_text) (drop ?n msgs))))"
    using loop unfolding sm by (simp add: tk)
  moreover have "?n = 0 \<or>
      B < int (sum_list (map (length \<circ> message_text) (drop ?n msgs)))
            + int (length (message_text (msgs ! (?n - 1))))"
  proof (cases "j = length msgs")
    case True
    then show ?thesis by simp
  next
    case False
    with j have lt: "j < length msgs" by simp
    then have "rev msgs ! j = msgs ! (?n - 1)" by (simp add: rev_nth)
    with stop False sm show ?thesis by simp
  qed
  moreover have "?n \<le> length msgs" by simp
  ultimately show ?thesis by blast
qed

text \<open>
  Claim C1, as the code has it, for a conversation whose whole history is fetched (at
  most 50 messages): when its most recent message renders longer than the budget in
  force (\<open>max_tokens\<close>, or the configured default for None and 0), the loop breaks at its
  first step and the context returned is the empty string. The over-budget message is
  dropped, not returned alone.
\<close>

theorem over_budget_context_empty:
  assumes "get_conversation_history st cid None True = Inr msgs"
      and "length msgs \<le> 50"
      and "msgs \<noteq> []"
      and "or_default max_tokens (max_context_length self) < int (length (message_text (last msgs)))"
  shows "fst (get_context_for_conversation self st now cid max_tokens) = []"
proof -
  from assms(3) obtain m ms where r: "rev msgs = m # ms" and m: "m = last msgs"
    by (cases msgs rule: rev_cases) auto
  from assms(4) m have
    "context_loop (or_default max_tokens (max_context_length self)) (rev msgs) ([], 0) = ([], 0)"
    unfolding r by (simp add: context_loop_over_budget)
  then show ?thesis
    by (simp add: context_of_history[OF whole_history_fetched[OF assms(1,2)]])
qed

text \<open>
  Witness for C1: one message \<open>user: hello\<close> of 11 characters and a budget of 5.
\<close>

theorem over_budget_context_empty_witness:
  "get_conversation_history (store_with [example_message ''m1'' 1 ''user'' ''hello'']) ''c1'' None True
     = Inr [example_message ''m1'' 1 ''user'' ''hello'']
   \<and> length [example_message ''m1'' 1 ''user'' ''hello''] \<le> 50
   \<and> [example_message ''m1'' 1 ''user'' ''hello''] \<noteq> []
   \<and> or_default (Some 5) (max_context_length empty_manager)
       < int (length (message_text (last [example_message ''m1'' 1 ''user'' ''hello''])))
   \<and> fst (get_context_for_conversation empty_manager
            (store_with [example_message ''m1'' 1 ''user'' ''hello'']) 7 ''c1'' (Some 5)) = []"
proof -
  have h1: "get_conversation_history (store_with [example_message ''m1'' 1 ''user'' ''hello'']) ''c1'' None True
     = Inr [example_message ''m1'' 1 ''user'' ''hello'']"
    by (simp add: eval_defs)
  have h2: "length [example_message ''m1'' 1 ''user'' ''hello''] \<le> 50" by simp
  have h3: "[example_message ''m1'' 1 ''user'' ''hello''] \<noteq> []" by simp
  have h4: "or_default (Some 5) (max_context_length empty_manager)
       < int (length (message_text (last [example_message ''m1'' 1 ''user'' ''hello''])))"
    by (simp add: eval_defs)
  from over_budget_context_empty[OF h1 h2 h3 h4, of 7] h1 h2 h3 h4 show ?thesis by blast
qed

text \<open>
  Counterexample to C1 as stated: the conversation's only message renders to 11
  characters, the budget is 5, and the result is not that rendered message.
\<close>

theorem over_budget_message_not_returned:
  "get_conversation_history (store_with [example_message ''m1'' 1 ''user'' ''hello'']) ''c1'' None True
     = Inr [example_message ''m1'' 1 ''user'' ''hello'']
   \<and> 5 < int (length (message_text (example_message ''m1'' 1 ''user'' ''hello'')))
   \<and> fst (get_context_for_conversation empty_manager
            (store_with [example_message ''m1'' 1 ''user'' ''hello'']) 7 ''c1'' (Some 5))
       \<noteq> message_text (example_message ''m1'' 1 ''user'' ''hello'')"
  by (simp add: eval_defs)

text \<open>
  Claim C2, as the code has it, for a conversation whose whole history is fetched (at
  most 50 messages): when its most recent message fits the budget \<open>B\<close>, the context is
  the rendered messages from some position \<open>n\<close> of the history on, whole and in
  chronological order, joined by newlines; at least the most recent one is kept; their
  lengths sum to at most \<open>B\<close>; the message before them, if there is one, would take the
  sum over \<open>B\<close>; and the length of the context is that sum plus one for each of the
  \<open>k - 1\<close> separators between the \<open>k\<close> kept messages. The budget is checked against
  the messages only, never against the separators.
\<close>

theorem budget_bounds_message_lengths:
  assumes "get_conversation_history st cid None True = Inr msgs"
      and "length msgs \<le> 50"
      and "msgs \<noteq> []"
      and "int (length (message_text (last msgs))) \<le> or_default max_tokens (max_context_length self)"
  shows "\<exists>n<length msgs.
           fst (get_context_for_conversation self st now cid max_tokens) =
             join [CHR 10] (map message_text (drop n msgs)) \<and>
           int (sum_list (map (length \<circ> message_text) (drop n msgs)))
             \<le> or_default max_tokens (max_context_length self) \<and>
           (n = 0 \<or>
            or_default max_tokens (max_context_length self)
              < int (sum_list (map (length \<circ> message_text) (drop n msgs)))
                + int (length (message_text (msgs ! (n - 1))))) \<and>
           int (length (fst (get_context_for_conversation self st now cid max_tokens))) =
             int (sum_list (map (length \<circ> message_text) (drop n msgs))) + int (length msgs - n) - 1"
proof -
  define B where "B = or_default max_tokens (max_context_length self)"
  from context_loop_recent[of msgs B]
  obtain n where n: "n \<le> length msgs"
    and loop: "context_loop B (rev msgs) ([], 0) =
       (map message_text (drop n msgs),
        int (sum_list (map (length \<circ> message_text) (drop n msgs))))"
    and stop: "n = 0 \<or>
       B < int (sum_list (map (length \<circ> message_text) (drop n msgs)))
             + int (length (message_text (msgs ! (n - 1))))"
    by blast
  have fits: "int (length (message_text (last msgs))) \<le> B" using assms(4) by (simp add: B_def)
  have lt: "n < length msgs"
  proof (rule ccontr)
    assume "\<not> n < length msgs"
    with n have eq: "n = length msgs" by simp
    with assms(3) have "n \<noteq> 0" by simp
    with stop eq have "B < int (length (message_text (msgs ! (length msgs - 1))))" by simp
    with fits assms(3) show False by (simp add: last_conv_nth)
  qed
  have "0 \<le> B" using fits by linarith
  with context_loop_bound[OF loop] have le: "int (sum_list (map (length \<circ> message_text) (drop n msgs))) \<le> B"
    by simp
  have ctx: "fst (get_context_for_conversation self st now cid max_tokens) =
             join [CHR 10] (map message_text (drop n msgs))"
    using context_of_history[OF whole_history_fetched[OF assms(1,2)], of self now max_tokens] loop
    by (simp add: B_def)
  have ne: "map message_text (drop n msgs) \<noteq> []" using lt by simp
  have len: "int (length (join [CHR 10] (map message_text (drop n msgs)))) =
             int (sum_list (map (length \<circ> message_text) (drop n msgs))) + int (length msgs - n) - 1"
    using length_join[OF ne, of "[CHR 10]"] by simp
  show ?thesis using lt ctx le stop len unfolding B_def by auto
qed

text \<open>
  Witness for C2: messages of 8 and 13 characters under a budget of 15; the most recent
  one is kept and the older one would take the sum to 21.
\<close>

theorem budget_bounds_message_lengths_witness:
  "get_conversation_history
      (store_with [example_message ''m1'' 1 ''user'' ''hi'', example_message ''m2'' 2 ''assistant'' ''yo''])
      ''c1'' None True
     = Inr [example_message ''m1'' 1 ''user'' ''hi'', example_message ''m2'' 2 ''assistant'' ''yo'']
   \<and> length [example_message ''m1'' 1 ''user'' ''hi'', example_message ''m2'' 2 ''assistant'' ''yo''] \<le> 50
   \<and> [example_message ''m1'' 1 ''user'' ''hi'', example_message ''m2'' 2 ''assistant'' ''yo''] \<noteq> []
   \<and> int (length (message_text
          (last [example_message ''m1'' 1 ''user'' ''hi'', example_message ''m2'' 2 ''assistant'' ''yo''])))
       \<le> or_default (Some 15) (max_context_length empty_manager)
   \<and> (\<exists>n<length [example_message ''m1'' 1 ''user'' ''hi'', example_message ''m2'' 2 ''assistant'' ''yo''].
         fst (get_context_for_conversation empty_manager
                (store_with [example_message ''m1'' 1 ''user'' ''hi'',
                             example_message ''m2'' 2 ''assistant'' ''yo''])
                7 ''c1'' (Some 15)) =
           join [CHR 10] (map message_text
             (drop n [example_message ''m1'' 1 ''user'' ''hi'', example_message ''m2'' 2 ''assistant'' ''yo''])) \<and>
         int (sum_list (map (length \<circ> message_text)
             (drop n [example_message ''m1'' 1 ''user'' ''hi'', example_message ''m2'' 2 ''assistant'' ''yo''])))
           \<le> or_default (Some 15) (max_context_length empty_manager) \<and>
         (n = 0 \<or>
          or_default (Some 15) (max_context_length empty_manager)
            < int (sum_list (map (length \<circ> message_text)
                (drop n [example_message ''m1'' 1 ''user'' ''hi'', example_message ''m2'' 2 ''assistant'' ''yo''])))
              + int (length (message_text
                  ([example_message ''m1'' 1 ''user'' ''hi'', example_message ''m2'' 2 ''assistant'' ''yo'']
                     ! (n - 1))))) \<and>
         int (length (fst (get_context_for_conversation empty_manager
                (store_with [example_message ''m1'' 1 ''user'' ''hi'',
                             example_message ''m2'' 2 ''assistant'' ''yo''])
                7 ''c1'' (Some 15)))) =
           int (sum_list (map (length \<circ> message_text)
             (drop n [example_message ''m1'' 1 ''user'' ''hi'', example_message ''m2'' 2 ''assistant'' ''yo''])))
           + int (length [example_message ''m1'' 1 ''user'' ''hi'', example_message ''m2'' 2 ''assistant'' ''yo''] - n)
           - 1)
   \<and> fst (get_context_for_conversation empty_manager
            (store_with [example_message ''m1'' 1 ''user'' ''hi'',
                         example_message ''m2'' 2 ''assistant'' ''yo''])
            7 ''c1'' (Some 15)) = ''assistant: yo''"
proof -
  let ?msgs = "[example_message ''m1'' 1 ''user'' ''hi'', example_message ''m2'' 2 ''assistant'' ''yo'']"
  have h1: "get_conversation_history (store_with ?msgs) ''c1'' None True = Inr ?msgs"
    by (simp add: eval_defs)
  have h2: "length ?msgs \<le> 50" by simp
  have h3: "?msgs \<noteq> []" by simp
  have h4: "int (length (message_text (last ?msgs)))
              \<le> or_default (Some 15) (max_context_length empty_manager)"
    by (simp add: eval_defs)
  have v: "fst (get_context_for_conversation empty_manager (store_with ?msgs) 7 ''c1'' (Some 15))
             = ''assistant: yo''"
    by (simp add: eval_defs)
  from budget_bounds_message_lengths[OF h1 h2 h3 h4, of 7] h1 h2 h3 h4 v show ?thesis by blast
qed

text \<open>
  Counterexample to C2 as stated: messages of 8 and 13 characters under a budget of 21.
  The most recent message fits, both are kept since 8 + 13 = 21, and the context with
  its separator has 22 characters.
\<close>

theorem separators_exceed_budget:
  "get_conversation_history
      (store_with [example_message ''m1'' 1 ''user'' ''hi'', example_message ''m2'' 2 ''assistant'' ''yo''])
      ''c1'' None True
     = Inr [example_message ''m1'' 1 ''user'' ''hi'', example_message ''m2'' 2 ''assistant'' ''yo'']
   \<and> int (length (message_text (example_message ''m2'' 2 ''assistant'' ''yo''))) \<le> 21
   \<and> fst (get_context_for_conversation empty_manager
        (store_with [example_message ''m1'' 1 ''user'' ''hi'', example_message ''m2'' 2 ''assistant'' ''yo''])
        7 ''c1'' (Some 21)) = ''user: hi'' @ [CHR 10] @ ''assistant: yo''
   \<and> \<not> int (length (fst (get_context_for_conversation empty_manager
        (store_with [example_message ''m1'' 1 ''user'' ''hi'', example_message ''m2'' 2 ''assistant'' ''yo''])
        7 ''c1'' (Some 21)))) \<le> 21"
  by (simp add: eval_defs)


section \<open>The store: order of the history, appends, deletion, failures\<close>

lemma before_insort_old:
  "before x y ys \<Longrightarrow> before x y (insort_key f a ys)"
  by (induction ys) (auto simp: set_insort_key)

lemma before_insort_new:
  "y \<in> set ys \<Longrightarrow> f a \<le> f y \<Longrightarrow> before a y (insort_key f a ys)"
  by (induction ys) auto

lemma before_sort_key:
  "before x y xs \<Longrightarrow> f x \<le> f y \<Longrightarrow> before x y (sort_key f xs)"
proof (induction xs)
  case Nil
  then show ?case by simp
next
  case (Cons z zs)
  have unfold: "sort_key f (z # zs) = insort_key f z (sort_key f zs)"
    by (simp add: sort_key_def)
  from Cons.prems(1) consider "z = x" "y \<in> set zs" | "before x y zs" by auto
  then show ?case
  proof cases
    case 1
    then show ?thesis using Cons.prems(2) unfolding unfold
      by (simp add: before_insort_new)
  next
    case 2
    then show ?thesis using Cons.IH Cons.prems(2) unfolding unfold
      by (simp add: before_insort_old)
  qed
qed

lemma before_filter:
  "before x y xs \<Longrightarrow> P x \<Longrightarrow> P y \<Longrightarrow> before x y (filter P xs)"
  by (induction xs) auto

text \<open>
  In a list sorted by a key, an element before another has a key that is not greater,
  and of two elements the one with the smaller key comes first.
\<close>

lemma before_in_set: "before x y xs \<Longrightarrow> x \<in> set xs \<and> y \<in> set xs"
  by (induction xs) auto

lemma sorted_before_le:
  "sorted (map f xs) \<Longrightarrow> before x y xs \<Longrightarrow> f x \<le> f y"
  by (induction xs) auto

lemma sorted_less_before:
  "sorted (map f xs) \<Longrightarrow> x \<in> set xs \<Longrightarrow> y \<in> set xs \<Longrightarrow> f x < f y \<Longrightarrow> before x y xs"
  by (induction xs) (auto dest: leD)

lemma history_of_working_store:
  "fault st = None \<Longrightarrow>
   get_conversation_history st cid None True =
     Inr (sort_key timestamp (filter (\<lambda>m. conversation_id m = cid) (messages (tables st))))"
  by (simp add: get_conversation_history_def sqlite3_connect_def try_except_def
                order_by_timestamp_def Let_def)

lemmas store_defs = add_message_def delete_conversation_def search_messages_def
  get_conversation_stats_def cleanup_old_conversations_def

text \<open>A successful append puts its row at the end of the table.\<close>

lemma add_message_appends:
  assumes "add_message st i t cid r c md tk pt cf = Inr (i', st')"
  shows "\<exists>row. messages (tables st') = messages (tables st) @ [row] \<and> msg_id row = i \<and>
               conversation_id row = cid \<and> role row = r \<and> content row = c \<and> timestamp row = t"
  using assms
  by (auto simp: add_message_def sqlite3_connect_def try_except_def Let_def
           split: option.splits if_splits)

lemmas state_defs = example_conversation_def example_store_def example_message_def store_with_def
  store_at_def broken_store_def

text \<open>
  Later appends, and the deletion of another conversation, keep two rows of the table in
  their order.
\<close>

lemma add_message_keeps_order:
  assumes "add_message st i t cid r c md tk pt cf = Inr (i', st')"
      and "before m1 m2 (messages (tables st))"
  shows "before m1 m2 (messages (tables st'))"
proof -
  have app: "\<And>xs ys. before m1 m2 xs \<Longrightarrow> before m1 m2 (xs @ ys)"
  proof -
    fix xs ys show "before m1 m2 xs \<Longrightarrow> before m1 m2 (xs @ ys)"
      by (induction xs) auto
  qed
  from add_message_appends[OF assms(1)] obtain row where
    "messages (tables st') = messages (tables st) @ [row]" by blast
  with app[OF assms(2)] show ?thesis by simp
qed

lemma delete_other_keeps_order:
  assumes "before m1 m2 (messages (tables st))"
      and "conversation_id m1 \<noteq> other" and "conversation_id m2 \<noteq> other"
  shows "before m1 m2 (messages (tables (snd (delete_conversation st other))))"
proof (cases "fault st")
  case None
  then show ?thesis using before_filter[OF assms(1), of "\<lambda>m. conversation_id m \<noteq> other"] assms(2,3)
    by (simp add: delete_conversation_def sqlite3_connect_def try_except_def Let_def)
next
  case (Some e)
  then show ?thesis using assms(1)
    by (simp add: delete_conversation_def sqlite3_connect_def try_except_def)
qed

text \<open>
  Claim C5, as the code has it: the history of a conversation is exactly the rows of
  that conversation, sorted by timestamp, oldest first. Of two messages of the
  conversation, \<open>m1\<close> inserted before \<open>m2\<close>, \<open>m1\<close> comes before \<open>m2\<close> in the history
  when its timestamp is not later than that of \<open>m2\<close> (rows of equal timestamp keep
  their insertion order); when the clock read an earlier time at the second append,
  \<open>m2\<close> comes before \<open>m1\<close> and \<open>m1\<close> does not come before \<open>m2\<close>.
\<close>

theorem history_keeps_append_order:
  assumes "fault st = None"
      and "before m1 m2 (messages (tables st))"
      and "conversation_id m1 = cid" and "conversation_id m2 = cid"
  shows "\<exists>hist. get_conversation_history st cid None True = Inr hist \<and>
                mset hist = mset (filter (\<lambda>m. conversation_id m = cid) (messages (tables st))) \<and>
                sorted (map timestamp hist) \<and>
                (if timestamp m1 \<le> timestamp m2 then before m1 m2 hist
                 else before m2 m1 hist \<and> \<not> before m1 m2 hist)"
proof -
  let ?rows = "filter (\<lambda>m. conversation_id m = cid) (messages (tables st))"
  let ?hist = "sort_key timestamp ?rows"
  have b: "before m1 m2 ?rows" using assms(2,3,4) by (simp add: before_filter)
  have s: "sorted (map timestamp ?hist)" by simp
  have order: "if timestamp m1 \<le> timestamp m2 then before m1 m2 ?hist
               else before m2 m1 ?hist \<and> \<not> before m1 m2 ?hist"
  proof (cases "timestamp m1 \<le> timestamp m2")
    case True
    with b show ?thesis by (simp add: before_sort_key)
  next
    case False
    then have lt: "timestamp m2 < timestamp m1" by simp
    from before_in_set[OF b] have in1: "m1 \<in> set ?hist" and in2: "m2 \<in> set ?hist"
      by simp_all
    have "before m2 m1 ?hist" by (rule sorted_less_before[OF s in2 in1 lt])
    moreover have "\<not> before m1 m2 ?hist" using sorted_before_le[OF s] lt by (auto dest: leD)
    ultimately show ?thesis using False by simp
  qed
  have "mset ?hist = mset ?rows" by simp
  with s order history_of_working_store[OF assms(1)] show ?thesis by simp
qed

text \<open>
  Witness for C5: two messages appended within the same second.
\<close>

theorem history_keeps_append_order_witness:
  "fault (store_with [example_message ''m1'' 1 ''user'' ''first'',
                      example_message ''m2'' 1 ''assistant'' ''second'']) = None
   \<and> before (example_message ''m1'' 1 ''user'' ''first'')
             (example_message ''m2'' 1 ''assistant'' ''second'')
             (messages (tables (store_with [example_message ''m1'' 1 ''user'' ''first'',
                                            example_message ''m2'' 1 ''assistant'' ''second''])))
   \<and> conversation_id (example_message ''m1'' 1 ''user'' ''first'') = ''c1''
   \<and> conversation_id (example_message ''m2'' 1 ''assistant'' ''second'') = ''c1''
   \<and> (\<exists>hist. get_conversation_history
                  (store_with [example_message ''m1'' 1 ''user'' ''first'',
                               example_message ''m2'' 1 ''assistant'' ''second''])
                  ''c1'' None True = Inr hist
              \<and> mset hist = mset (filter (\<lambda>m. conversation_id m = ''c1'')
                    (messages (tables (store_with [example_message ''m1'' 1 ''user'' ''first'',
                                                   example_message ''m2'' 1 ''assistant'' ''second'']))))
              \<and> sorted (map timestamp hist)
              \<and> before (example_message ''m1'' 1 ''user'' ''first'')
                        (example_message ''m2'' 1 ''assistant'' ''second'') hist)"
proof -
  let ?m1 = "example_message ''m1'' 1 ''user'' ''first''"
  let ?m2 = "example_message ''m2'' 1 ''assistant'' ''second''"
  have h1: "fault (store_with [?m1, ?m2]) = None" by (simp add: state_defs)
  have h2: "before ?m1 ?m2 (messages (tables (store_with [?m1, ?m2])))"
    by (simp add: state_defs)
  have h3: "conversation_id ?m1 = ''c1''" by (simp add: state_defs)
  have h4: "conversation_id ?m2 = ''c1''" by (simp add: state_defs)
  have le: "timestamp ?m1 \<le> timestamp ?m2" by (simp add: state_defs)
  from history_keeps_append_order[OF h1 h2 h3 h4] le
  have "\<exists>hist. get_conversation_history (store_with [?m1, ?m2]) ''c1'' None True = Inr hist
              \<and> mset hist = mset (filter (\<lambda>m. conversation_id m = ''c1'')
                                    (messages (tables (store_with [?m1, ?m2]))))
              \<and> sorted (map timestamp hist) \<and> before ?m1 ?m2 hist"
    by (simp only: if_True)
  with h1 h2 h3 h4 show ?thesis by blast
qed

text \<open>
  Counterexample to C5 as stated: \<open>m1\<close> is appended when the clock reads 2, then \<open>m2\<close>
  when it reads 1; the history returns \<open>m2\<close> first.
\<close>

theorem history_follows_clock_not_appends:
  "add_message example_store ''m1'' 2 ''c1'' ''user'' ''first'' None None None None
     = Inr (''m1'', store_at 2 [example_message ''m1'' 2 ''user'' ''first''])
   \<and> add_message (store_at 2 [example_message ''m1'' 2 ''user'' ''first''])
         ''m2'' 1 ''c1'' ''assistant'' ''second'' None None None None
     = Inr (''m2'', store_at 1 [example_message ''m1'' 2 ''user'' ''first'',
                               example_message ''m2'' 1 ''assistant'' ''second''])
   \<and> get_conversation_history
         (store_at 1 [example_message ''m1'' 2 ''user'' ''first'',
                      example_message ''m2'' 1 ''assistant'' ''second''])
         ''c1'' None True
     = Inr [example_message ''m2'' 1 ''assistant'' ''second'',
            example_message ''m1'' 2 ''user'' ''first'']
   \<and> \<not> before (example_message ''m1'' 2 ''user'' ''first'')
               (example_message ''m2'' 1 ''assistant'' ''second'')
               [example_message ''m2'' 1 ''assistant'' ''second'',
                example_message ''m1'' 2 ''user'' ''first'']"
  by (simp add: state_defs add_message_def get_conversation_history_def sqlite3_connect_def
                try_except_def order_by_timestamp_def Let_def)

text \<open>
  Claim C3 at a failing input: the store has no conversation \<open>ghost\<close>, and appending
  to it returns the message id and stores the row, where the claim demands an error.
\<close>

theorem add_message_missing_conversation_succeeds:
  "''ghost'' \<notin> set (map conv_id (conversations (tables example_store)))
   \<and> add_message example_store ''m1'' 5 ''ghost'' ''user'' ''hi'' None None None None
     = Inr (''m1'',
            \<lparr> tables = \<lparr> conversations = [example_conversation],
                         messages = [\<lparr> msg_id = ''m1'', conversation_id = ''ghost'',
                                       role = ''user'', content = ''hi'', timestamp = 5,
                                       metadata = JDict [], tokens_used = None,
                                       processing_time = None, confidence = None \<rparr>] \<rparr>,
              fault = None \<rparr>)"
  by (simp add: state_defs add_message_def sqlite3_connect_def try_except_def Let_def)

text \<open>
  Counterexample to C4 as stated: deleting the conversation \<open>ghost\<close>, which the store
  does not have, returns True.
\<close>

theorem delete_missing_reports_success:
  "''ghost'' \<notin> set (map conv_id (conversations (tables example_store)))
   \<and> delete_conversation example_store ''ghost'' = (True, example_store)"
  by (simp add: state_defs delete_conversation_def sqlite3_connect_def try_except_def Let_def)

text \<open>
  Claim C4, as the code has it: for a conversation that is not in the registry,
  \<open>delete_conversation\<close> raises nothing, leaves the registry as it is, and returns True
  exactly when the storage worked; False reports a storage failure, not a missing
  conversation.
\<close>

theorem delete_reports_storage_outcome:
  assumes "cid \<notin> set (map conv_id (conversations (tables st)))"
  shows "fst (delete_conversation st cid) = (fault st = None) \<and>
         conversations (tables (snd (delete_conversation st cid))) = conversations (tables st)"
proof -
  from assms have "filter (\<lambda>c. conv_id c \<noteq> cid) (conversations (tables st)) = conversations (tables st)"
    by (auto simp: filter_id_conv)
  then show ?thesis
    by (cases "fault st")
       (simp_all add: delete_conversation_def sqlite3_connect_def try_except_def Let_def)
qed

text \<open>
  Witness for C4: the conversation \<open>ghost\<close> and the example store.
\<close>

theorem delete_reports_storage_outcome_witness:
  "''ghost'' \<notin> set (map conv_id (conversations (tables example_store)))
   \<and> fst (delete_conversation example_store ''ghost'') = (fault example_store = None)
   \<and> conversations (tables (snd (delete_conversation example_store ''ghost'')))
       = conversations (tables example_store)"
proof -
  have h: "''ghost'' \<notin> set (map conv_id (conversations (tables example_store)))"
    by (simp add: state_defs)
  from delete_reports_storage_outcome[OF h] h show ?thesis by blast
qed

text \<open>
  Counterexample to C6 as stated: on a store whose connection raises, search returns
  the empty list, stats the empty dict and retention cleanup 0.
\<close>

theorem storage_failure_swallowed:
  "sqlite3_connect broken_store = Inl OperationalError
   \<and> search_messages broken_store ''alice'' ''hi'' 50 = Inr []
   \<and> get_conversation_stats broken_store ''c1'' = Inr []
   \<and> cleanup_old_conversations broken_store 100 30 = (0, broken_store)"
  by (simp add: state_defs store_defs sqlite3_connect_def try_except_def)

text \<open>
  Claim C6, as the code has it: when the store fails, search, stats and retention
  cleanup catch the failure and return the empty list, the empty dict and 0, leaving the
  store as it is; append and history pass the failure on to the caller.
\<close>

theorem storage_failure_outcomes:
  assumes "fault st = Some e"
  shows "search_messages st u q l = Inr [] \<and>
         get_conversation_stats st cid = Inr [] \<and>
         cleanup_old_conversations st now days = (0, st) \<and>
         add_message st i t cid r c md tk pt cf = Inl e \<and>
         get_conversation_history st cid limit im = Inl e"
  using assms
  by (simp add: store_defs get_conversation_history_def sqlite3_connect_def try_except_def)

text \<open>
  Witness for C6: the example store with a failing connection.
\<close>

theorem storage_failure_outcomes_witness:
  "fault broken_store = Some OperationalError
   \<and> search_messages broken_store ''alice'' ''hi'' 50 = Inr []
   \<and> get_conversation_stats broken_store ''c1'' = Inr []
   \<and> cleanup_old_conversations broken_store 100 30 = (0, broken_store)
   \<and> add_message broken_store ''m1'' 5 ''c1'' ''user'' ''hi'' None None None None
       = Inl OperationalError
   \<and> get_conversation_history broken_store ''c1'' None True = Inl OperationalError"
proof -
  have h: "fault broken_store = Some OperationalError" by (simp add: state_defs)
  from storage_failure_outcomes[OF h] h show ?thesis by blast
qed


section \<open>Working memory: consolidation and reads\<close>

lemmas memory_defs = exact_float_ops_def example_item_def manager_with_def example_disk_def
  empty_manager_def

text \<open>
  Every manager reached from a fresh one by updates and reads has well-formed dicts.
\<close>

lemma list_all_update:
  "list_all (\<lambda>(k, v). P v) al \<Longrightarrow> P v' \<Longrightarrow> list_all (\<lambda>(k, v). P v) (AList.update k' v' al)"
  by (induction al) auto

lemma distinct_keys_lookup:
  "distinct_keys self \<Longrightarrow> map_of (working_memory self) cid = Some wm \<Longrightarrow> distinct (map fst wm)"
  by (auto simp: distinct_keys_def list_all_iff dest!: map_of_SomeD)

lemma distinct_keys_empty: "distinct_keys empty_manager"
  by (simp add: distinct_keys_def empty_manager_def)

lemma distinct_keys_update:
  assumes "distinct_keys self"
  shows "distinct_keys (update_working_memory self now cid key v imp)"
proof -
  have d: "distinct (map fst (working_memory self))"
    and a: "list_all (\<lambda>(conv, working_mem). distinct (map fst working_mem)) (working_memory self)"
    using assms by (simp_all add: distinct_keys_def)
  show ?thesis
  proof (cases "map_of (working_memory self) cid")
    case None
    then show ?thesis using d a
      by (simp add: update_working_memory_def distinct_keys_def Let_def update_conv'
                    distinct_update list_all_update)
  next
    case (Some wm)
    have "distinct (map fst wm)" using assms Some by (rule distinct_keys_lookup)
    then show ?thesis using Some d a
      by (simp add: update_working_memory_def distinct_keys_def Let_def
                    distinct_update list_all_update)
  qed
qed

lemma distinct_keys_get:
  assumes "distinct_keys self"
  shows "distinct_keys (snd (get_working_memory self cid key))"
proof -
  have d: "distinct (map fst (working_memory self))"
    and a: "list_all (\<lambda>(conv, working_mem). distinct (map fst working_mem)) (working_memory self)"
    using assms by (simp_all add: distinct_keys_def)
  have wm: "\<And>wm. map_of (working_memory self) cid = Some wm \<Longrightarrow> distinct (map fst wm)"
    using assms by (rule distinct_keys_lookup)
  show ?thesis using assms d a wm
    by (auto simp: get_working_memory_def distinct_keys_def distinct_update list_all_update
             split: option.splits)
qed

text \<open>
  The loop of the consolidation and the merge into the long-term file, key by key.
\<close>

lemma map_of_consolidate_fold:
  "distinct (map fst wm) \<Longrightarrow>
   map_of (fold (consolidate_step ops now_at) wm acc) key =
     (case map_of wm key of
        None \<Rightarrow> map_of acc key
      | Some item \<Rightarrow>
          if float_greater ops (float_times_int ops (importance item) (access_count item))
                           (float_2_0 ops)
          then Some \<lparr> entry_value = item_value item,
                      strength = float_times_int ops (importance item) (access_count item),
                      consolidated_at = now_at key \<rparr>
          else map_of acc key)"
proof (induction wm arbitrary: acc)
  case Nil
  then show ?case by simp
next
  case (Cons kv wm)
  obtain k item where kv: "kv = (k, item)" by (cases kv)
  from Cons.prems have d: "distinct (map fst wm)" and fresh: "map_of wm k = None"
    by (auto simp: kv map_of_eq_None_iff)
  let ?acc = "consolidate_step ops now_at (k, item) acc"
  have unfold: "fold (consolidate_step ops now_at) (kv # wm) acc =
                fold (consolidate_step ops now_at) wm ?acc"
    by (simp add: kv)
  have step: "map_of ?acc key =
     (if key = k \<and> float_greater ops (float_times_int ops (importance item) (access_count item))
                                     (float_2_0 ops)
      then Some \<lparr> entry_value = item_value item,
                  strength = float_times_int ops (importance item) (access_count item),
                  consolidated_at = now_at key \<rparr>
      else map_of acc key)"
    by (simp add: consolidate_step_def Let_def update_conv')
  show ?case
  proof (cases "key = k")
    case True
    then show ?thesis unfolding unfold Cons.IH[OF d] using fresh step by (simp add: kv)
  next
    case False
    then show ?thesis unfolding unfold Cons.IH[OF d] using step
      by (simp add: kv split: option.splits)
  qed
qed

lemma distinct_consolidate_fold:
  "distinct (map fst acc) \<Longrightarrow> distinct (map fst (fold (consolidate_step ops now_at) wm acc))"
  by (induction wm arbitrary: acc)
     (auto simp: consolidate_step_def Let_def distinct_update split: prod.splits)

lemma map_of_dict_update:
  "distinct (map fst e) \<Longrightarrow> map_of (dict_update d e) = map_of d ++ map_of e"
proof (induction e arbitrary: d)
  case Nil
  then show ?case by (simp add: dict_update_def)
next
  case (Cons kv e)
  obtain k v where kv: "kv = (k, v)" by (cases kv)
  from Cons.prems have d: "distinct (map fst e)" and fresh: "k \<notin> dom (map_of e)"
    by (auto simp: kv dom_map_of_conv_image_fst)
  have "map_of (dict_update d (kv # e)) = map_of (dict_update (AList.update k v d) e)"
    by (simp add: dict_update_def kv)
  also have "\<dots> = (map_of d)(k \<mapsto> v) ++ map_of e"
    by (simp only: Cons.IH[OF d] update_conv')
  also have "\<dots> = map_of d ++ map_of (kv # e)"
    using fresh by (auto simp: kv map_add_def fun_eq_iff split: option.splits)
  finally show ?case .
qed

lemma consolidate_memory_manager:
  "fst (consolidate_memory ops now_at self dsk cid) = self"
  by (simp add: consolidate_memory_def Let_def split: option.splits)

lemma retrieve_after_store:
  "disk_fault dsk = None \<Longrightarrow> distinct (map fst memories) \<Longrightarrow>
   map_of (retrieve_long_term_memory (store_long_term_memory dsk cid memories) cid) =
   map_of (retrieve_long_term_memory dsk cid) ++ map_of memories"
  by (simp add: store_long_term_memory_def retrieve_long_term_memory_def try_except_def Let_def
                update_conv' map_of_dict_update split: option.splits)

text \<open>
  Claim C7: for a conversation with working memory, and with the long-term file
  readable and writable, after \<open>consolidate_memory\<close> the long-term storage of the
  conversation holds, for every key of the working memory whose strength, importance
  times access count, is above 2.0, the entry made from its value and strength; every
  other key keeps the long-term entry it had, or has none. So exactly the strong keys
  are copied, they are merged into the entries already there, the new entry wins over
  an old one of the same key, and the conversation's working memory is still there.
\<close>

theorem consolidate_copies_strong_keys:
  assumes "map_of (working_memory self) cid = Some wm"
      and "distinct (map fst wm)"
      and "disk_fault dsk = None"
  shows "map_of (retrieve_long_term_memory (snd (consolidate_memory ops now_at self dsk cid)) cid) key =
           (case map_of wm key of
              None \<Rightarrow> map_of (retrieve_long_term_memory dsk cid) key
            | Some item \<Rightarrow>
                if float_greater ops (float_times_int ops (importance item) (access_count item))
                                 (float_2_0 ops)
                then Some \<lparr> entry_value = item_value item,
                            strength = float_times_int ops (importance item) (access_count item),
                            consolidated_at = now_at key \<rparr>
                else map_of (retrieve_long_term_memory dsk cid) key)
         \<and> map_of (working_memory (fst (consolidate_memory ops now_at self dsk cid))) cid = Some wm"
proof -
  let ?important = "fold (consolidate_step ops now_at) wm []"
  have imp: "map_of ?important key =
     (case map_of wm key of
        None \<Rightarrow> None
      | Some item \<Rightarrow>
          if float_greater ops (float_times_int ops (importance item) (access_count item))
                           (float_2_0 ops)
          then Some \<lparr> entry_value = item_value item,
                      strength = float_times_int ops (importance item) (access_count item),
                      consolidated_at = now_at key \<rparr>
          else None)"
    using map_of_consolidate_fold[OF assms(2), of ops now_at "[]" key]
    by (simp split: option.splits)
  have dist: "distinct (map fst ?important)"
    by (rule distinct_consolidate_fold) simp
  have lt: "map_of (retrieve_long_term_memory (snd (consolidate_memory ops now_at self dsk cid)) cid) key =
            (map_of (retrieve_long_term_memory dsk cid) ++ map_of ?important) key"
  proof (cases "?important = []")
    case True
    then show ?thesis using assms(1) by (simp add: consolidate_memory_def Let_def)
  next
    case False
    then show ?thesis using assms(1)
      by (simp add: consolidate_memory_def Let_def retrieve_after_store[OF assms(3) dist])
  qed
  have "(map_of (retrieve_long_term_memory dsk cid) ++ map_of ?important) key =
        (case map_of ?important key of None \<Rightarrow> map_of (retrieve_long_term_memory dsk cid) key
         | Some e \<Rightarrow> Some e)"
    by (simp add: map_add_def)
  with lt imp have first: "map_of (retrieve_long_term_memory (snd (consolidate_memory ops now_at self dsk cid)) cid) key =
           (case map_of wm key of
              None \<Rightarrow> map_of (retrieve_long_term_memory dsk cid) key
            | Some item \<Rightarrow>
                if float_greater ops (float_times_int ops (importance item) (access_count item))
                                 (float_2_0 ops)
                then Some \<lparr> entry_value = item_value item,
                            strength = float_times_int ops (importance item) (access_count item),
                            consolidated_at = now_at key \<rparr>
                else map_of (retrieve_long_term_memory dsk cid) key)"
    by (simp split: option.splits)
  show ?thesis using first assms(1) by (simp add: consolidate_memory_manager)
qed

text \<open>
  Witness for C7: importance 2.0 and access count 2 gives strength 4.0, and \<open>goal\<close> is
  copied over the older entry; importance 0.5 and access count 1 gives 0.5, and \<open>mood\<close>
  is not copied; the older entry \<open>name\<close> stays.
\<close>

theorem consolidate_copies_strong_keys_witness:
  "map_of (working_memory (manager_with [(''goal'', example_item ''Lisbon'' 2 2),
                                         (''mood'', example_item ''calm'' (1/2) 1)])) ''c1''
     = Some [(''goal'', example_item ''Lisbon'' 2 2), (''mood'', example_item ''calm'' (1/2) 1)]
   \<and> distinct (map fst [(''goal'', example_item ''Lisbon'' 2 2),
                         (''mood'', example_item ''calm'' (1/2) 1)])
   \<and> disk_fault example_disk = None
   \<and> map_of (retrieve_long_term_memory
               (snd (consolidate_memory exact_float_ops (\<lambda>key. 9)
                       (manager_with [(''goal'', example_item ''Lisbon'' 2 2),
                                      (''mood'', example_item ''calm'' (1/2) 1)])
                       example_disk ''c1'')) ''c1'') ''goal''
       = Some \<lparr> entry_value = JStr ''Lisbon'', strength = 4, consolidated_at = 9 \<rparr>
   \<and> map_of (retrieve_long_term_memory
               (snd (consolidate_memory exact_float_ops (\<lambda>key. 9)
                       (manager_with [(''goal'', example_item ''Lisbon'' 2 2),
                                      (''mood'', example_item ''calm'' (1/2) 1)])
                       example_disk ''c1'')) ''c1'') ''mood''
       = None
   \<and> map_of (retrieve_long_term_memory
               (snd (consolidate_memory exact_float_ops (\<lambda>key. 9)
                       (manager_with [(''goal'', example_item ''Lisbon'' 2 2),
                                      (''mood'', example_item ''calm'' (1/2) 1)])
                       example_disk ''c1'')) ''c1'') ''name''
       = Some \<lparr> entry_value = JStr ''Alice'', strength = 5, consolidated_at = 1 \<rparr>
   \<and> map_of (working_memory
               (fst (consolidate_memory exact_float_ops (\<lambda>key. 9)
                       (manager_with [(''goal'', example_item ''Lisbon'' 2 2),
                                      (''mood'', example_item ''calm'' (1/2) 1)])
                       example_disk ''c1''))) ''c1''
       = Some [(''goal'', example_item ''Lisbon'' 2 2), (''mood'', example_item ''calm'' (1/2) 1)]"
proof -
  let ?items = "[(''goal'', example_item ''Lisbon'' 2 2), (''mood'', example_item ''calm'' (1/2) 1)]"
  have h1: "map_of (working_memory (manager_with ?items)) ''c1'' = Some ?items"
    by (simp add: memory_defs)
  have h2: "distinct (map fst ?items)" by simp
  have h3: "disk_fault example_disk = None" by (simp add: memory_defs)
  note goal = consolidate_copies_strong_keys[OF h1 h2 h3, of exact_float_ops "\<lambda>key. 9" "''goal''"]
  note mood = consolidate_copies_strong_keys[OF h1 h2 h3, of exact_float_ops "\<lambda>key. 9" "''mood''"]
  note name = consolidate_copies_strong_keys[OF h1 h2 h3, of exact_float_ops "\<lambda>key. 9" "''name''"]
  have old: "retrieve_long_term_memory example_disk ''c1'' =
               [(''goal'', \<lparr> entry_value = JStr ''Porto'', strength = 3, consolidated_at = 1 \<rparr>),
                (''name'', \<lparr> entry_value = JStr ''Alice'', strength = 5, consolidated_at = 1 \<rparr>)]"
    by (simp add: retrieve_long_term_memory_def example_disk_def)
  have e1: "map_of (retrieve_long_term_memory
               (snd (consolidate_memory exact_float_ops (\<lambda>key. 9) (manager_with ?items)
                       example_disk ''c1'')) ''c1'') ''goal''
       = Some \<lparr> entry_value = JStr ''Lisbon'', strength = 4, consolidated_at = 9 \<rparr>"
    using goal by (simp add: exact_float_ops_def example_item_def)
  have e2: "map_of (retrieve_long_term_memory
               (snd (consolidate_memory exact_float_ops (\<lambda>key. 9) (manager_with ?items)
                       example_disk ''c1'')) ''c1'') ''mood'' = None"
    using mood by (simp add: exact_float_ops_def example_item_def old)
  have e3: "map_of (retrieve_long_term_memory
               (snd (consolidate_memory exact_float_ops (\<lambda>key. 9) (manager_with ?items)
                       example_disk ''c1'')) ''c1'') ''name''
       = Some \<lparr> entry_value = JStr ''Alice'', strength = 5, consolidated_at = 1 \<rparr>"
    using name by (simp add: old)
  from goal have e4: "map_of (working_memory
               (fst (consolidate_memory exact_float_ops (\<lambda>key. 9) (manager_with ?items)
                       example_disk ''c1''))) ''c1'' = Some ?items"
    by blast
  from h1 h2 h3 e1 e2 e3 e4 show ?thesis by blast
qed

text \<open>
  The manager of that witness is reached by one update with importance 2.0 and one read.
\<close>

lemma example_manager_reached:
  "snd (get_working_memory
          (update_working_memory empty_manager 3 ''c1'' ''goal'' (JStr ''Lisbon'') 2)
          ''c1'' (Some ''goal''))
   = manager_with [(''goal'', example_item ''Lisbon'' 2 2)]"
  by (simp add: update_working_memory_def get_working_memory_def memory_defs Let_def)

text \<open>
  Claim C10: \<open>consolidate_memory\<close> returns the working memory it was given, for every
  conversation, whatever the long-term storage does: no key is added or removed and no
  field of any item changes.
\<close>

theorem consolidate_preserves_working_memory:
  "working_memory (fst (consolidate_memory ops now_at self dsk cid)) = working_memory self"
  by (simp add: consolidate_memory_manager)

text \<open>
  Claim C8, as the code has it: a read with a key that is not the empty string and is
  present returns the item's value and adds one to the access count of that key, all
  other keys staying as they are; a read without a key returns the whole dict and
  changes no access count.
\<close>

theorem read_increments_named_key:
  assumes "map_of (working_memory self) cid = Some wm"
      and "k \<noteq> []"
      and "map_of wm k = Some item"
  shows "fst (get_working_memory self cid (Some k)) = ItemValue (item_value item)
       \<and> (\<exists>wm'. map_of (working_memory (snd (get_working_memory self cid (Some k)))) cid = Some wm'
               \<and> map_of wm' = (map_of wm)(k \<mapsto> item\<lparr> access_count := access_count item + 1 \<rparr>))
       \<and> get_working_memory self cid None = (WholeMemory wm, self)"
  using assms by (simp add: get_working_memory_def update_conv')

text \<open>
  Witness for C8: the key \<open>goal\<close> with access count 1.
\<close>

theorem read_increments_named_key_witness:
  "map_of (working_memory (manager_with [(''goal'', example_item ''Lisbon'' 2 1)])) ''c1''
     = Some [(''goal'', example_item ''Lisbon'' 2 1)]
   \<and> ''goal'' \<noteq> []
   \<and> map_of [(''goal'', example_item ''Lisbon'' 2 1)] ''goal'' = Some (example_item ''Lisbon'' 2 1)
   \<and> fst (get_working_memory (manager_with [(''goal'', example_item ''Lisbon'' 2 1)]) ''c1''
            (Some ''goal''))
       = ItemValue (item_value (example_item ''Lisbon'' 2 1))
   \<and> (\<exists>wm'. map_of (working_memory
                      (snd (get_working_memory (manager_with [(''goal'', example_item ''Lisbon'' 2 1)])
                              ''c1'' (Some ''goal'')))) ''c1'' = Some wm'
            \<and> map_of wm' = (map_of [(''goal'', example_item ''Lisbon'' 2 1)])
                              (''goal'' \<mapsto> (example_item ''Lisbon'' 2 1)
                                 \<lparr> access_count := access_count (example_item ''Lisbon'' 2 1) + 1 \<rparr>))
   \<and> get_working_memory (manager_with [(''goal'', example_item ''Lisbon'' 2 1)]) ''c1'' None
       = (WholeMemory [(''goal'', example_item ''Lisbon'' 2 1)],
          manager_with [(''goal'', example_item ''Lisbon'' 2 1)])"
proof -
  have h1: "map_of (working_memory (manager_with [(''goal'', example_item ''Lisbon'' 2 1)])) ''c1''
     = Some [(''goal'', example_item ''Lisbon'' 2 1)]"
    by (simp add: memory_defs)
  have h2: "''goal'' \<noteq> []" by simp
  have h3: "map_of [(''goal'', example_item ''Lisbon'' 2 1)] ''goal'' = Some (example_item ''Lisbon'' 2 1)"
    by simp
  from read_increments_named_key[OF h1 h2 h3] h1 h2 h3 show ?thesis by blast
qed

text \<open>
  Counterexample to C8 as stated: the read without a key returns the whole dict and
  leaves the manager as it was, with the access count of \<open>goal\<close> still 1.
\<close>

theorem whole_memory_read_counts_nothing:
  "fst (get_working_memory (manager_with [(''goal'', example_item ''Lisbon'' 2 1)]) ''c1'' None)
     = WholeMemory [(''goal'', example_item ''Lisbon'' 2 1)]
   \<and> snd (get_working_memory (manager_with [(''goal'', example_item ''Lisbon'' 2 1)]) ''c1'' None)
     = manager_with [(''goal'', example_item ''Lisbon'' 2 1)]
   \<and> working_memory (manager_with [(''goal'', example_item ''Lisbon'' 2 1)])
     = [(''c1'', [(''goal'', example_item ''Lisbon'' 2 1)])]
   \<and> access_count (example_item ''Lisbon'' 2 1) = 1"
  by (simp add: get_working_memory_def memory_defs)


section \<open>Prompt construction\<close>

text \<open>
  Claim C9: the prompt built from a system prompt, a message, a history, a user context
  and an additional context is the same whatever the clock reads and whatever state the
  random generator is in; it does not depend on the attachments either. An exception
  raised on the way (a missing key of a history entry, a value that cannot be joined) is
  determined by the same inputs.
\<close>

theorem build_prompt_deterministic:
  "build_prompt world1 json_dumps system_prompt message history context attachments1
                additional_context
   = build_prompt world2 json_dumps system_prompt message history context attachments2
                  additional_context"
  by (simp add: build_prompt_def)

end
